theory Spec2Isabelle
  imports Main
begin

section \<open>Node algebra\<close>

text \<open>
  A \<^verbatim>\<open>RegexPtr\<close> is a shared pointer to an immutable node. Nodes are never mutated
  after construction, so a pointer is modelled by the node it points to, tagged with
  the identity of its allocation: the number handed out by the allocator when the
  node was created with \<^verbatim>\<open>new\<close> or \<^verbatim>\<open>make_shared\<close>. \<^verbatim>\<open>Emp\<close> and \<^verbatim>\<open>Eps\<close> have a
  private constructor and one static instance each, so they carry no number.
  The constructors of \<^verbatim>\<open>Or\<close>, \<^verbatim>\<open>Concat\<close> and \<^verbatim>\<open>Star\<close> are private and are only
  called by \<^verbatim>\<open>create\<close> after its null checks, so the children of a node are nodes,
  while a \<^verbatim>\<open>RegexPtr\<close> in general may be \<^verbatim>\<open>nullptr\<close> (\<open>None\<close>). The class \<^verbatim>\<open>Char\<close> is
  the constructor \<open>Char_node\<close>, since \<open>Char\<close> is the constructor of HOL's characters.
\<close>

datatype regex =
    Emp
  | Eps
  | Char_node nat char
  | Or nat regex regex
  | Concat nat regex regex
  | Star nat regex

type_synonym RegexPtr = "regex option"

text \<open>The raw pointer \<^verbatim>\<open>r.get()\<close>: what pointer comparison and the cache keys see.\<close>

datatype raw_ptr = emp_instance | eps_instance | object nat

fun get_raw :: "regex \<Rightarrow> raw_ptr" where
  "get_raw Emp = emp_instance"
| "get_raw Eps = eps_instance"
| "get_raw (Char_node i c) = object i"
| "get_raw (Or i a b) = object i"
| "get_raw (Concat i a b) = object i"
| "get_raw (Star i a) = object i"

fun is_contain_eps :: "regex \<Rightarrow> bool" where
  "is_contain_eps Emp = False"
| "is_contain_eps Eps = True"
| "is_contain_eps (Char_node i c) = False"
| "is_contain_eps (Or i r1 r2) = (is_contain_eps r1 \<or> is_contain_eps r2)"
| "is_contain_eps (Concat i r1 r2) = (is_contain_eps r1 \<and> is_contain_eps r2)"
| "is_contain_eps (Star i r1) = True"

section \<open>Smart constructors and their caches\<close>

text \<open>
  The three static caches and the allocator are the global state. A \<^verbatim>\<open>RegexKey\<close> is
  compared as the tuple of its type string and the two raw pointers; the \<^verbatim>\<open>Star\<close>
  cache is keyed by the operand pointer alone. A \<^verbatim>\<open>std::map\<close> is a partial function
  on its keys.
\<close>

type_synonym RegexKey = "string \<times> raw_ptr \<times> raw_ptr"

record globals =
  Or_cache :: "RegexKey \<rightharpoonup> regex"
  Concat_cache :: "RegexKey \<rightharpoonup> regex"
  Star_cache :: "raw_ptr \<rightharpoonup> regex"
  next_object :: nat

definition init_globals :: globals where
  "init_globals =
     \<lparr>Or_cache = Map.empty, Concat_cache = Map.empty, Star_cache = Map.empty,
      next_object = 0\<rparr>"

definition Or_create :: "RegexPtr \<Rightarrow> RegexPtr \<Rightarrow> globals \<Rightarrow> RegexPtr \<times> globals" where
  "Or_create a b g =
     (case a of None \<Rightarrow> (b, g) | Some ra \<Rightarrow>
      (case b of None \<Rightarrow> (a, g) | Some rb \<Rightarrow>
       if get_raw ra = get_raw rb then (a, g)
       else
         let key = (''Or'', get_raw ra, get_raw rb) in
         (case Or_cache g key of
            Some hit \<Rightarrow> (Some hit, g)
          | None \<Rightarrow>
              let ptr = Or (next_object g) ra rb in
              (Some ptr,
               g\<lparr>Or_cache := (Or_cache g)(key \<mapsto> ptr),
                  next_object := Suc (next_object g)\<rparr>))))"

definition Concat_create :: "RegexPtr \<Rightarrow> RegexPtr \<Rightarrow> globals \<Rightarrow> RegexPtr \<times> globals" where
  "Concat_create a b g =
     (case a of None \<Rightarrow> (b, g) | Some ra \<Rightarrow>
      (case b of None \<Rightarrow> (a, g) | Some rb \<Rightarrow>
         let key = (''Concat'', get_raw ra, get_raw rb) in
         (case Concat_cache g key of
            Some hit \<Rightarrow> (Some hit, g)
          | None \<Rightarrow>
              let ptr = Concat (next_object g) ra rb in
              (Some ptr,
               g\<lparr>Concat_cache := (Concat_cache g)(key \<mapsto> ptr),
                  next_object := Suc (next_object g)\<rparr>))))"

definition Star_create :: "RegexPtr \<Rightarrow> globals \<Rightarrow> RegexPtr \<times> globals" where
  "Star_create a g =
     (case a of None \<Rightarrow> (Some Eps, g) | Some ra \<Rightarrow>
        (case Star_cache g (get_raw ra) of
           Some hit \<Rightarrow> (Some hit, g)
         | None \<Rightarrow>
             let ptr = Star (next_object g) ra in
             (Some ptr,
              g\<lparr>Star_cache := (Star_cache g)(get_raw ra \<mapsto> ptr),
                 next_object := Suc (next_object g)\<rparr>)))"

section \<open>Derivatives\<close>

text \<open>
  \<^verbatim>\<open>derive\<close> is the virtual method, dispatched on the variant. It calls the smart
  constructors, so it takes the global state and returns it updated. The base class
  \<^verbatim>\<open>Regex\<close> is never instantiated, so the six variants are all the nodes there are.

  C++ leaves open the order in which the two arguments of a call are evaluated, and
  three calls in \<^verbatim>\<open>derive\<close> have two arguments that both change the globals. The
  order is a parameter of the model: every result below holds for both orders.
\<close>

datatype arg_order = left_to_right | right_to_left

fun derive :: "arg_order \<Rightarrow> regex \<Rightarrow> char \<Rightarrow> globals \<Rightarrow> RegexPtr \<times> globals" where
  "derive ord Emp c g = (Some Emp, g)"
| "derive ord Eps c g = (Some Emp, g)"
| "derive ord (Char_node i c') c g = ((if c' = c then Some Eps else Some Emp), g)"
| "derive ord (Or i r1 r2) c g =
     (if ord = left_to_right then
        (case derive ord r1 c g of (d1, g1) \<Rightarrow>
         case derive ord r2 c g1 of (d2, g2) \<Rightarrow>
           Or_create d1 d2 g2)
      else
        (case derive ord r2 c g of (d2, g1) \<Rightarrow>
         case derive ord r1 c g1 of (d1, g2) \<Rightarrow>
           Or_create d1 d2 g2))"
| "derive ord (Concat i r1 r2) c g =
     (if is_contain_eps r1 then
        (if ord = left_to_right then
           (case derive ord r1 c g of (d1, g1) \<Rightarrow>
            case Concat_create d1 (Some r2) g1 of (k, g2) \<Rightarrow>
            case derive ord r2 c g2 of (d2, g3) \<Rightarrow>
              Or_create k d2 g3)
         else
           (case derive ord r2 c g of (d2, g1) \<Rightarrow>
            case derive ord r1 c g1 of (d1, g2) \<Rightarrow>
            case Concat_create d1 (Some r2) g2 of (k, g3) \<Rightarrow>
              Or_create k d2 g3))
      else
        (case derive ord r1 c g of (d1, g1) \<Rightarrow>
           Concat_create d1 (Some r2) g1))"
| "derive ord (Star i r1) c g =
     (if ord = left_to_right then
        (case derive ord r1 c g of (d1, g1) \<Rightarrow>
         case Star_create (Some r1) g1 of (s, g2) \<Rightarrow>
           Concat_create d1 s g2)
      else
        (case Star_create (Some r1) g of (s, g1) \<Rightarrow>
         case derive ord r1 c g1 of (d1, g2) \<Rightarrow>
           Concat_create d1 s g2))"

section \<open>Matching\<close>

text \<open>
  Errors: the exceptions \<^verbatim>\<open>parse_regex\<close> throws, with their messages, and the two
  ways the code can leave defined behaviour: \<^verbatim>\<open>top\<close> or \<^verbatim>\<open>pop\<close> on an empty
  \<^verbatim>\<open>std::stack\<close>, and a method call through a null pointer.
\<close>

datatype error =
    runtime_error string
  | empty_stack_access
  | null_dereference

fun is_match_loop ::
  "arg_order \<Rightarrow> RegexPtr \<Rightarrow> string \<Rightarrow> globals \<Rightarrow> error + RegexPtr \<times> globals" where
  "is_match_loop ord result [] g = Inr (result, g)"
| "is_match_loop ord result (c # cs) g =
     (case result of
        None \<Rightarrow> Inl null_dereference
      | Some r \<Rightarrow>
          (case derive ord r c g of (result', g') \<Rightarrow> is_match_loop ord result' cs g'))"

definition is_match ::
  "arg_order \<Rightarrow> RegexPtr \<Rightarrow> string \<Rightarrow> globals \<Rightarrow> error + bool \<times> globals" where
  "is_match ord regex text g =
     (case is_match_loop ord regex text g of
        Inl e \<Rightarrow> Inl e
      | Inr (result, g') \<Rightarrow>
          (case result of
             None \<Rightarrow> Inl null_dereference
           | Some r \<Rightarrow> Inr (is_contain_eps r, g')))"

section \<open>Parsing\<close>

text \<open>
  The two stacks are lists with the top at the head. The lambdas of \<^verbatim>\<open>parse_regex\<close>
  capture the stacks by reference: here they take them and return them.
\<close>

definition apply_op ::
  "char \<Rightarrow> RegexPtr list \<Rightarrow> globals \<Rightarrow> error + RegexPtr list \<times> globals" where
  "apply_op op operands g =
     (if op = CHR ''|'' then
        (case operands of
           [] \<Rightarrow> Inl empty_stack_access
         | b # operands1 \<Rightarrow>
             (case operands1 of
                [] \<Rightarrow> Inl empty_stack_access
              | a # operands2 \<Rightarrow>
                  (case Or_create a b g of (r, g') \<Rightarrow> Inr (r # operands2, g'))))
      else if op = CHR ''.'' then
        (case operands of
           [] \<Rightarrow> Inl empty_stack_access
         | b # operands1 \<Rightarrow>
             (case operands1 of
                [] \<Rightarrow> Inl empty_stack_access
              | a # operands2 \<Rightarrow>
                  (case Concat_create a b g of (r, g') \<Rightarrow> Inr (r # operands2, g'))))
      else Inr (operands, g))"

definition precedence :: "char \<Rightarrow> int" where
  "precedence op =
     (if op = CHR ''*'' then 4
      else if op = CHR ''+'' then 4
      else if op = CHR ''?'' then 4
      else if op = CHR ''.'' then 3
      else if op = CHR ''|'' then 2
      else 0)"

fun process_stack ::
  "char \<Rightarrow> RegexPtr list \<Rightarrow> char list \<Rightarrow> globals \<Rightarrow>
   error + RegexPtr list \<times> char list \<times> globals" where
  "process_stack op operands [] g = Inr (operands, [], g)"
| "process_stack op operands (top_op # ops) g =
     (if precedence top_op \<ge> precedence op then
        (case apply_op top_op operands g of
           Inl e \<Rightarrow> Inl e
         | Inr (operands', g') \<Rightarrow> process_stack op operands' ops g')
      else Inr (operands, top_op # ops, g))"

text \<open>The loop of the \<^verbatim>\<open>)\<close> branch: apply and pop until \<^verbatim>\<open>(\<close> is on top.\<close>

fun reduce_to_paren ::
  "RegexPtr list \<Rightarrow> char list \<Rightarrow> globals \<Rightarrow>
   error + RegexPtr list \<times> char list \<times> globals" where
  "reduce_to_paren operands [] g = Inr (operands, [], g)"
| "reduce_to_paren operands (top_op # ops) g =
     (if top_op \<noteq> CHR ''('' then
        (case apply_op top_op operands g of
           Inl e \<Rightarrow> Inl e
         | Inr (operands', g') \<Rightarrow> reduce_to_paren operands' ops g')
      else Inr (operands, top_op # ops, g))"

text \<open>The loop after the scan: apply every operator left.\<close>

fun reduce_all ::
  "RegexPtr list \<Rightarrow> char list \<Rightarrow> globals \<Rightarrow> error + RegexPtr list \<times> globals" where
  "reduce_all operands [] g = Inr (operands, g)"
| "reduce_all operands (top_op # ops) g =
     (if top_op = CHR ''('' \<or> top_op = CHR '')'' then
        Inl (runtime_error ''Mismatched parentheses'')
      else
        (case apply_op top_op operands g of
           Inl e \<Rightarrow> Inl e
         | Inr (operands', g') \<Rightarrow> reduce_all operands' ops g'))"

text \<open>
  The scanner state: the two stacks, \<^verbatim>\<open>prev\<close> and the globals. \<open>parse_char\<close> is the
  body of the scan for one symbol \<open>c\<close>, after the escape has been consumed.
\<close>

type_synonym scan = "RegexPtr list \<times> char list \<times> RegexPtr \<times> globals"

definition parse_char :: "char \<Rightarrow> scan \<Rightarrow> error + scan" where
  "parse_char c st =
     (case st of (operands, ops, prev, g) \<Rightarrow>
      if c = CHR ''('' then Inr (operands, c # ops, None, g)
      else if c = CHR '')'' then
        (case reduce_to_paren operands ops g of
           Inl e \<Rightarrow> Inl e
         | Inr (operands', ops', g') \<Rightarrow>
             (case ops' of
                [] \<Rightarrow> Inl (runtime_error ''Mismatched parentheses'')
              | paren # ops'' \<Rightarrow>
                  (case operands' of
                     [] \<Rightarrow> Inl empty_stack_access
                   | t # rest \<Rightarrow> Inr (operands', ops'', t, g'))))
      else if c = CHR ''*'' \<or> c = CHR ''+'' \<or> c = CHR ''?'' then
        (if prev = None then Inl (runtime_error (c # '' cannot appear at start''))
         else
           (case operands of
              [] \<Rightarrow> Inl empty_stack_access
            | t # operands1 \<Rightarrow>
                if c = CHR ''*'' then
                  (case Star_create prev g of (r, g1) \<Rightarrow>
                     Inr (r # operands1, ops, r, g1))
                else if c = CHR ''+'' then
                  (case Star_create prev g of (s, g1) \<Rightarrow>
                   case Concat_create prev s g1 of (r, g2) \<Rightarrow>
                     Inr (r # operands1, ops, r, g2))
                else
                  (case Or_create (Some Eps) prev g of (r, g1) \<Rightarrow>
                     Inr (r # operands1, ops, r, g1))))
      else if c = CHR ''|'' then
        (case process_stack (CHR ''|'') operands ops g of
           Inl e \<Rightarrow> Inl e
         | Inr (operands', ops', g') \<Rightarrow> Inr (operands', CHR ''|'' # ops', None, g'))
      else
        (let r = Some (Char_node (next_object g) c);
             g0 = g\<lparr>next_object := Suc (next_object g)\<rparr> in
         if prev \<noteq> None then
           (case process_stack (CHR ''.'') operands ops g0 of
              Inl e \<Rightarrow> Inl e
            | Inr (operands', ops', g') \<Rightarrow> Inr (r # operands', CHR ''.'' # ops', r, g'))
         else Inr (r # operands, ops, r, g0)))"

text \<open>
  The scan over the pattern. The argument is the rest of the pattern from index \<open>i\<close>
  on; an escape symbol advances \<open>i\<close> once more and fails at the end of the pattern.
\<close>

fun parse_loop :: "string \<Rightarrow> scan \<Rightarrow> error + scan" where
  "parse_loop [] st = Inr st"
| "parse_loop (c # s) st =
     (if c = CHR 0x5C then
        (case s of
           [] \<Rightarrow> Inl (runtime_error ''Invalid escape'')
         | c' # s' \<Rightarrow>
             (case parse_char c' st of Inl e \<Rightarrow> Inl e | Inr st' \<Rightarrow> parse_loop s' st'))
      else
        (case parse_char c st of Inl e \<Rightarrow> Inl e | Inr st' \<Rightarrow> parse_loop s st'))"

definition parse_regex :: "string \<Rightarrow> globals \<Rightarrow> error + RegexPtr \<times> globals" where
  "parse_regex s g =
     (case parse_loop s ([], [], None, g) of
        Inl e \<Rightarrow> Inl e
      | Inr (operands, ops, prev, g1) \<Rightarrow>
          (case reduce_all operands ops g1 of
             Inl e \<Rightarrow> Inl e
           | Inr (operands', g2) \<Rightarrow>
               if length operands' \<noteq> 1 then Inl (runtime_error ''Invalid regex'')
               else Inr (hd operands', g2)))"

text \<open>
  The \<^verbatim>\<open>try\<close> block of \<^verbatim>\<open>main\<close>: parse the pattern in the state of a fresh process,
  match the text, and yield the boolean that is printed.
\<close>

definition main_try :: "arg_order \<Rightarrow> string \<Rightarrow> string \<Rightarrow> error + bool" where
  "main_try ord pattern text =
     (case parse_regex pattern init_globals of
        Inl e \<Rightarrow> Inl e
      | Inr (regex, g) \<Rightarrow>
          (case is_match ord regex text g of
             Inl e \<Rightarrow> Inl e
           | Inr (matched, g') \<Rightarrow> Inr matched))"

section \<open>Specification-level notions\<close>

text \<open>
  The matcher as the specification words it: starting from the root, the working node
  is replaced by its derivative for each symbol of the text, from left to right.
  \<open>derive_text\<close> is that left fold; it yields the final working node and the globals.
\<close>

definition derive_step :: "arg_order \<Rightarrow> regex \<times> globals \<Rightarrow> char \<Rightarrow> regex \<times> globals" where
  "derive_step ord w c = (case derive ord (fst w) c (snd w) of (p, g') \<Rightarrow> (the p, g'))"

definition derive_text ::
  "arg_order \<Rightarrow> regex \<Rightarrow> string \<Rightarrow> globals \<Rightarrow> regex \<times> globals" where
  "derive_text ord root text g = foldl (derive_step ord) (root, g) text"

text \<open>The caches of \<open>g'\<close> hold every entry of the caches of \<open>g\<close>, unchanged.\<close>

definition caches_le :: "globals \<Rightarrow> globals \<Rightarrow> bool" where
  "caches_le g g' =
     (Or_cache g \<subseteq>\<^sub>m Or_cache g' \<and> Concat_cache g \<subseteq>\<^sub>m Concat_cache g' \<and>
      Star_cache g \<subseteq>\<^sub>m Star_cache g')"

section \<open>Results of the smart constructors\<close>

lemma Or_create_not_null: "a \<noteq> None \<or> b \<noteq> None \<Longrightarrow> fst (Or_create a b g) \<noteq> None"
  by (auto simp: Or_create_def Let_def split: option.splits)

lemma Concat_create_not_null:
  "a \<noteq> None \<or> b \<noteq> None \<Longrightarrow> fst (Concat_create a b g) \<noteq> None"
  by (auto simp: Concat_create_def Let_def split: option.splits)

lemma Star_create_not_null: "fst (Star_create a g) \<noteq> None"
  by (auto simp: Star_create_def Let_def split: option.splits)

lemma Or_create_not_nullE:
  "Or_create a b g = (p, g') \<Longrightarrow> a \<noteq> None \<or> b \<noteq> None \<Longrightarrow> p \<noteq> None"
  using Or_create_not_null [of a b g] by simp

lemma Concat_create_not_nullE:
  "Concat_create a b g = (p, g') \<Longrightarrow> a \<noteq> None \<or> b \<noteq> None \<Longrightarrow> p \<noteq> None"
  using Concat_create_not_null [of a b g] by simp

text \<open>A derivative is never the null pointer.\<close>

lemma derive_not_nullE: "derive ord r c g = (p, g') \<Longrightarrow> p \<noteq> None"
proof (induction r arbitrary: g p g')
  case (Or i r1 r2)
  then show ?case
    by (auto split: prod.splits if_splits dest!: Or_create_not_nullE)
next
  case (Concat i r1 r2)
  then show ?case
    by (auto split: prod.splits if_splits dest!: Or_create_not_nullE Concat_create_not_nullE)
next
  case (Star i r)
  then show ?case
    by (auto split: prod.splits if_splits dest!: Concat_create_not_nullE)
qed (auto split: if_splits)

lemma derive_not_null: "fst (derive ord r c g) \<noteq> None"
  using derive_not_nullE [of ord r c g] by (cases "derive ord r c g") simp

section \<open>The caches only grow\<close>

lemma caches_le_refl: "caches_le g g"
  by (simp add: caches_le_def)

lemma caches_le_trans: "caches_le g1 g2 \<Longrightarrow> caches_le g2 g3 \<Longrightarrow> caches_le g1 g3"
  unfolding caches_le_def by (blast intro: map_le_trans)

lemma map_le_fresh: "m k = None \<Longrightarrow> m \<subseteq>\<^sub>m m(k \<mapsto> v)"
  by (auto simp: map_le_def)

lemma Or_create_caches_le: "Or_create a b g = (p, g') \<Longrightarrow> caches_le g g'"
  by (auto simp: Or_create_def caches_le_def Let_def map_le_fresh split: option.splits if_splits)

lemma Concat_create_caches_le: "Concat_create a b g = (p, g') \<Longrightarrow> caches_le g g'"
  by (auto simp: Concat_create_def caches_le_def Let_def map_le_fresh split: option.splits)

lemma Star_create_caches_le: "Star_create a g = (p, g') \<Longrightarrow> caches_le g g'"
  by (auto simp: Star_create_def caches_le_def Let_def map_le_fresh split: option.splits)

lemma derive_caches_le: "derive ord r c g = (p, g') \<Longrightarrow> caches_le g g'"
proof (induction r arbitrary: g p g')
  case (Or i r1 r2)
  show ?case
  proof (cases "ord = left_to_right")
    case True
    obtain d1 g1 where d1: "derive ord r1 c g = (d1, g1)" by (cases "derive ord r1 c g")
    obtain d2 g2 where d2: "derive ord r2 c g1 = (d2, g2)" by (cases "derive ord r2 c g1")
    from Or.prems True d1 d2 have "Or_create d1 d2 g2 = (p, g')" by simp
    then have "caches_le g2 g'" by (rule Or_create_caches_le)
    with Or.IH(1) [OF d1] Or.IH(2) [OF d2] show ?thesis
      by (metis caches_le_trans)
  next
    case False
    obtain d2 g1 where d2: "derive ord r2 c g = (d2, g1)" by (cases "derive ord r2 c g")
    obtain d1 g2 where d1: "derive ord r1 c g1 = (d1, g2)" by (cases "derive ord r1 c g1")
    from Or.prems False d1 d2 have "Or_create d1 d2 g2 = (p, g')" by simp
    then have "caches_le g2 g'" by (rule Or_create_caches_le)
    with Or.IH(2) [OF d2] Or.IH(1) [OF d1] show ?thesis
      by (metis caches_le_trans)
  qed
next
  case (Concat i r1 r2)
  show ?case
  proof (cases "is_contain_eps r1")
    case False
    obtain d1 g1 where d1: "derive ord r1 c g = (d1, g1)" by (cases "derive ord r1 c g")
    from Concat.prems False d1 have "Concat_create d1 (Some r2) g1 = (p, g')" by simp
    then have "caches_le g1 g'" by (rule Concat_create_caches_le)
    with Concat.IH(1) [OF d1] show ?thesis by (metis caches_le_trans)
  next
    case nullable: True
    show ?thesis
    proof (cases "ord = left_to_right")
      case True
      obtain d1 g1 where d1: "derive ord r1 c g = (d1, g1)" by (cases "derive ord r1 c g")
      obtain k g2 where k: "Concat_create d1 (Some r2) g1 = (k, g2)"
        by (cases "Concat_create d1 (Some r2) g1")
      obtain d2 g3 where d2: "derive ord r2 c g2 = (d2, g3)" by (cases "derive ord r2 c g2")
      from Concat.prems nullable True d1 k d2 have "Or_create k d2 g3 = (p, g')" by simp
      then have "caches_le g3 g'" by (rule Or_create_caches_le)
      with Concat.IH(1) [OF d1] Concat_create_caches_le [OF k] Concat.IH(2) [OF d2]
      show ?thesis by (metis caches_le_trans)
    next
      case False
      obtain d2 g1 where d2: "derive ord r2 c g = (d2, g1)" by (cases "derive ord r2 c g")
      obtain d1 g2 where d1: "derive ord r1 c g1 = (d1, g2)" by (cases "derive ord r1 c g1")
      obtain k g3 where k: "Concat_create d1 (Some r2) g2 = (k, g3)"
        by (cases "Concat_create d1 (Some r2) g2")
      from Concat.prems nullable False d1 k d2 have "Or_create k d2 g3 = (p, g')" by simp
      then have "caches_le g3 g'" by (rule Or_create_caches_le)
      with Concat.IH(2) [OF d2] Concat.IH(1) [OF d1] Concat_create_caches_le [OF k]
      show ?thesis by (metis caches_le_trans)
    qed
  qed
next
  case (Star i r)
  show ?case
  proof (cases "ord = left_to_right")
    case True
    obtain d1 g1 where d1: "derive ord r c g = (d1, g1)" by (cases "derive ord r c g")
    obtain s g2 where s: "Star_create (Some r) g1 = (s, g2)"
      by (cases "Star_create (Some r) g1")
    from Star.prems True d1 s have "Concat_create d1 s g2 = (p, g')" by simp
    then have "caches_le g2 g'" by (rule Concat_create_caches_le)
    with Star.IH [OF d1] Star_create_caches_le [OF s] show ?thesis
      by (metis caches_le_trans)
  next
    case False
    obtain s g1 where s: "Star_create (Some r) g = (s, g1)"
      by (cases "Star_create (Some r) g")
    obtain d1 g2 where d1: "derive ord r c g1 = (d1, g2)" by (cases "derive ord r c g1")
    from Star.prems False d1 s have "Concat_create d1 s g2 = (p, g')" by simp
    then have "caches_le g2 g'" by (rule Concat_create_caches_le)
    with Star_create_caches_le [OF s] Star.IH [OF d1] show ?thesis
      by (metis caches_le_trans)
  qed
qed (auto simp: caches_le_refl split: if_splits)

lemma derive_text_caches_le: "caches_le g (snd (derive_text ord r str g))"
proof (induction str arbitrary: r g)
  case Nil
  show ?case by (simp add: derive_text_def caches_le_refl)
next
  case (Cons c cs)
  obtain p g' where d: "derive ord r c g = (p, g')" by (cases "derive ord r c g")
  have "caches_le g g'" using d by (rule derive_caches_le)
  moreover have "caches_le g' (snd (derive_text ord (the p) cs g'))" by (rule Cons.IH)
  moreover have "derive_text ord r (c # cs) g = derive_text ord (the p) cs g'"
    using d by (simp add: derive_text_def derive_step_def)
  ultimately show ?case by (metis caches_le_trans)
qed

text \<open>
  Once a call of a smart constructor has returned, the same call returns the same node
  in every later state, and allocates nothing.
\<close>

lemma Or_create_stable:
  "caches_le (snd (Or_create a b g)) g2 \<Longrightarrow> Or_create a b g2 = (fst (Or_create a b g), g2)"
  by (auto simp: Or_create_def caches_le_def Let_def map_le_def dom_def split: option.splits)

lemma Concat_create_stable:
  "caches_le (snd (Concat_create a b g)) g2 \<Longrightarrow>
   Concat_create a b g2 = (fst (Concat_create a b g), g2)"
  by (auto simp: Concat_create_def caches_le_def Let_def map_le_def dom_def split: option.splits)

lemma Star_create_stable:
  "caches_le (snd (Star_create a g)) g2 \<Longrightarrow> Star_create a g2 = (fst (Star_create a g), g2)"
  by (auto simp: Star_create_def caches_le_def Let_def map_le_def dom_def split: option.splits)

section \<open>The matcher is the left fold of the derivative\<close>

lemma is_match_loop_derive_text:
  "is_match_loop ord (Some root) str g =
     Inr (Some (fst (derive_text ord root str g)), snd (derive_text ord root str g))"
proof (induction str arbitrary: root g)
  case Nil
  show ?case by (simp add: derive_text_def)
next
  case (Cons c cs)
  obtain p g' where d: "derive ord root c g = (p, g')" by (cases "derive ord root c g")
  from derive_not_nullE [OF d] obtain r' where r': "p = Some r'" by auto
  have "is_match_loop ord (Some root) (c # cs) g = is_match_loop ord (Some r') cs g'"
    using d r' by simp
  also have "\<dots> =
      Inr (Some (fst (derive_text ord r' cs g')), snd (derive_text ord r' cs g'))"
    by (rule Cons.IH)
  also have "derive_text ord r' cs g' = derive_text ord root (c # cs) g"
    using d r' by (simp add: derive_text_def derive_step_def)
  finally show ?case .
qed

section \<open>The escape symbol\<close>

text \<open>
  The scan drops the escape symbol and then dispatches on the escaped symbol exactly
  as on an unescaped one: escaping any symbol but the escape symbol itself changes
  nothing.
\<close>

lemma escape_ignored:
  "c \<noteq> CHR 0x5C \<Longrightarrow> parse_regex (CHR 0x5C # c # s) g = parse_regex (c # s) g"
  by (simp add: parse_regex_def)

section \<open>The claims\<close>

text \<open>
  Claim C1 says that an escaped symbol always becomes a literal, so that the pattern
  \<^verbatim>\<open>\(a\)\<close> matches the text \<^verbatim>\<open>(a)\<close>. The code does otherwise: the escaped
  parentheses still group, the pattern parses to the single literal \<^verbatim>\<open>a\<close>, exactly as
  \<^verbatim>\<open>(a)\<close> does, and the text \<^verbatim>\<open>(a)\<close> is not matched while \<^verbatim>\<open>a\<close> is.
\<close>

theorem escaped_paren_still_groups:
  "parse_regex [CHR 0x5C, CHR ''('', CHR ''a'', CHR 0x5C, CHR '')''] init_globals =
     parse_regex ''(a)'' init_globals \<and>
   map_sum id fst (parse_regex [CHR 0x5C, CHR ''('', CHR ''a'', CHR 0x5C, CHR '')''] init_globals) =
     Inr (Some (Char_node 0 CHR ''a'')) \<and>
   main_try ord [CHR 0x5C, CHR ''('', CHR ''a'', CHR 0x5C, CHR '')''] ''(a)'' = Inr False \<and>
   main_try ord [CHR 0x5C, CHR ''('', CHR ''a'', CHR 0x5C, CHR '')''] ''a'' = Inr True"
proof -
  have "parse_regex [CHR 0x5C, CHR ''('', CHR ''a'', CHR 0x5C, CHR '')''] init_globals =
        parse_regex ''(a)'' init_globals"
    by (simp add: parse_regex_def parse_char_def Let_def)
  moreover have
    "map_sum id fst
       (parse_regex [CHR 0x5C, CHR ''('', CHR ''a'', CHR 0x5C, CHR '')''] init_globals) =
     Inr (Some (Char_node 0 CHR ''a''))"
    by code_simp
  moreover have
    "main_try left_to_right [CHR 0x5C, CHR ''('', CHR ''a'', CHR 0x5C, CHR '')''] ''(a)'' =
       Inr False"
    "main_try right_to_left [CHR 0x5C, CHR ''('', CHR ''a'', CHR 0x5C, CHR '')''] ''(a)'' =
       Inr False"
    by code_simp+
  moreover have
    "main_try left_to_right [CHR 0x5C, CHR ''('', CHR ''a'', CHR 0x5C, CHR '')''] ''a'' =
       Inr True"
    "main_try right_to_left [CHR 0x5C, CHR ''('', CHR ''a'', CHR 0x5C, CHR '')''] ''a'' =
       Inr True"
    by code_simp+
  ultimately show ?thesis by (cases ord) simp_all
qed

text \<open>
  Claim C2 says that an operand followed by an opening parenthesis is concatenated with
  the group, so that \<^verbatim>\<open>a(b)\<close> parses and matches \<^verbatim>\<open>ab\<close>. The code does otherwise:
  the \<^verbatim>\<open>(\<close> branch pushes no concatenation operator, two operands are left at the end
  and \<^verbatim>\<open>parse_regex\<close> throws \<^verbatim>\<open>Invalid regex\<close>, in every state of the caches. The mirror
  pattern \<^verbatim>\<open>(a)b\<close>, where the literal branch pushes the operator, parses and matches.
\<close>

theorem literal_before_paren_rejected:
  "parse_regex ''a(b)'' g = Inl (runtime_error ''Invalid regex'') \<and>
   main_try ord ''a(b)'' ''ab'' = Inl (runtime_error ''Invalid regex'') \<and>
   main_try ord ''(a)b'' ''ab'' = Inr True"
proof -
  have p: "parse_regex ''a(b)'' g = Inl (runtime_error ''Invalid regex'')" for g
    by (simp add: parse_regex_def parse_char_def Let_def)
  have "main_try ord ''a(b)'' ''ab'' = Inl (runtime_error ''Invalid regex'')"
    by (simp add: main_try_def p)
  moreover have
    "main_try left_to_right ''(a)b'' ''ab'' = Inr True"
    "main_try right_to_left ''(a)b'' ''ab'' = Inr True"
    by code_simp+
  ultimately show ?thesis using p by (cases ord) simp_all
qed

text \<open>
  Claim C3: the derivative of each variant follows the Brzozowski rules, built with the
  smart constructors. \<open>Emp\<close> and \<open>Eps\<close> derive to \<open>Emp\<close>; a literal derives to \<open>Eps\<close> on
  its own symbol and to \<open>Emp\<close> otherwise; \<open>Or\<close> derives both operands and joins them
  with \<open>Or_create\<close>; \<open>Concat\<close> derives its left operand and concatenates the right one,
  and when the left operand is nullable joins that with the derivative of the right
  operand; \<open>Star\<close> concatenates the derivative of its operand with \<open>Star_create\<close> of the
  operand. The globals are threaded through the calls in the order they are made, for
  either order of evaluating the arguments.
\<close>

theorem derive_rules:
  "derive ord Emp c g = (Some Emp, g) \<and>
   derive ord Eps c g = (Some Emp, g) \<and>
   derive ord (Char_node i x) c g = (if x = c then (Some Eps, g) else (Some Emp, g)) \<and>
   derive left_to_right (Or i a b) c g =
     (let (da, g1) = derive left_to_right a c g;
          (db, g2) = derive left_to_right b c g1
      in Or_create da db g2) \<and>
   derive right_to_left (Or i a b) c g =
     (let (db, g1) = derive right_to_left b c g;
          (da, g2) = derive right_to_left a c g1
      in Or_create da db g2) \<and>
   derive left_to_right (Concat i a b) c g =
     (if is_contain_eps a then
        (let (da, g1) = derive left_to_right a c g;
             (k, g2) = Concat_create da (Some b) g1;
             (db, g3) = derive left_to_right b c g2
         in Or_create k db g3)
      else
        (let (da, g1) = derive left_to_right a c g in Concat_create da (Some b) g1)) \<and>
   derive right_to_left (Concat i a b) c g =
     (if is_contain_eps a then
        (let (db, g1) = derive right_to_left b c g;
             (da, g2) = derive right_to_left a c g1;
             (k, g3) = Concat_create da (Some b) g2
         in Or_create k db g3)
      else
        (let (da, g1) = derive right_to_left a c g in Concat_create da (Some b) g1)) \<and>
   derive left_to_right (Star i a) c g =
     (let (da, g1) = derive left_to_right a c g;
          (s, g2) = Star_create (Some a) g1
      in Concat_create da s g2) \<and>
   derive right_to_left (Star i a) c g =
     (let (s, g1) = Star_create (Some a) g;
          (da, g2) = derive right_to_left a c g1
      in Concat_create da s g2)"
  by simp

text \<open>
  Claim C4: for every root node and text, \<open>is_match\<close> returns without error the
  nullability of the node reached by deriving the root with each symbol of the text
  from left to right (\<open>derive_text\<close>: one more symbol at the end of the text is one more
  derivative of the node reached so far, and that derivative is a node); for the empty
  text no derivative is taken, the result is the nullability of the root and the
  globals are untouched.
\<close>

theorem is_match_derives_left_to_right:
  "is_match ord (Some root) text g =
     Inr (is_contain_eps (fst (derive_text ord root text g)),
          snd (derive_text ord root text g))
   \<and> derive_text ord root (text @ [c]) g =
       (the (fst (derive ord (fst (derive_text ord root text g)) c
                    (snd (derive_text ord root text g)))),
        snd (derive ord (fst (derive_text ord root text g)) c
               (snd (derive_text ord root text g))))
   \<and> fst (derive ord (fst (derive_text ord root text g)) c
             (snd (derive_text ord root text g))) \<noteq> None
   \<and> derive_text ord root [] g = (root, g)
   \<and> is_match ord (Some root) [] g = Inr (is_contain_eps root, g)"
  by (simp add: is_match_def is_match_loop_derive_text derive_text_def derive_step_def
      derive_not_null split: prod.splits)

text \<open>
  Claim C5: nullability is computed structurally: false for \<open>Emp\<close> and for a literal,
  true for \<open>Eps\<close> and for \<open>Star\<close>, the disjunction of the operands for \<open>Or\<close> and their
  conjunction for \<open>Concat\<close>.
\<close>

theorem is_contain_eps_rules:
  "is_contain_eps Emp = False \<and>
   is_contain_eps Eps = True \<and>
   is_contain_eps (Char_node i x) = False \<and>
   is_contain_eps (Or j a b) = (is_contain_eps a \<or> is_contain_eps b) \<and>
   is_contain_eps (Concat k a b) = (is_contain_eps a \<and> is_contain_eps b) \<and>
   is_contain_eps (Star l a) = True"
  by simp

text \<open>
  Claim C6 says that a pattern whose stacks do not reduce to one operand makes the
  parser throw its error and fail in no other way. The code does so for the empty
  pattern, but not for \<^verbatim>\<open>a|\<close> and \<^verbatim>\<open>|a\<close>: applying the pending \<^verbatim>\<open>|\<close> reads the top of
  the operand stack after its only operand has been popped, before the final check
  of the number of operands is reached.
\<close>

theorem dangling_alternation_underflows:
  "parse_regex ''a|'' g = Inl empty_stack_access \<and>
   parse_regex ''|a'' g = Inl empty_stack_access \<and>
   parse_regex [] g = Inl (runtime_error ''Invalid regex'')"
  by (simp add: parse_regex_def parse_char_def Let_def apply_op_def)

text \<open>
  Claim C7 says that the parser reads and pops the operand stack only when it is not
  empty. The code does otherwise on the pattern \<^verbatim>\<open>()\<close>: after the marker is popped,
  \<^verbatim>\<open>prev\<close> is read from the top of an operand stack that holds nothing. The same
  happens inside \<^verbatim>\<open>apply_op\<close> on \<^verbatim>\<open>(|)\<close> and on \<^verbatim>\<open>a|b|\<close>.
\<close>

theorem empty_group_underflows:
  "parse_regex ''()'' g = Inl empty_stack_access \<and>
   parse_regex ''(|)'' g = Inl empty_stack_access \<and>
   parse_regex ''a|b|'' g = Inl empty_stack_access"
  by (simp add: parse_regex_def parse_char_def Let_def apply_op_def precedence_def
      Or_create_def split: option.splits)

text \<open>
  Claim C8: the identity and elision laws of the smart constructors. \<open>Or_create\<close> on
  the same instance twice returns that instance; \<open>Concat_create\<close> with an absent
  operand returns the other operand; \<open>Star_create\<close> of an absent operand returns the
  \<open>Eps\<close> singleton. None of these calls changes the caches or allocates.
\<close>

theorem create_identity_laws:
  "Or_create (Some a) (Some a) g = (Some a, g) \<and>
   Concat_create None b g = (b, g) \<and>
   Concat_create a' None g = (a', g) \<and>
   Star_create None g = (Some Eps, g)"
  by (simp add: Or_create_def Concat_create_def Star_create_def split: option.splits)

text \<open>
  Claim C9: the smart constructors intern by operand identity. A second call of
  \<open>Or_create\<close>, \<open>Concat_create\<close> or \<open>Star_create\<close> with the same operands returns the
  node the first call returned and leaves the globals as they are; and the same holds
  when any node has been derived along any text between the two calls, in particular
  for \<open>Star_create\<close> on the same operand during a derivation.
\<close>

theorem create_interned:
  "Or_create a b (snd (Or_create a b g)) = Or_create a b g \<and>
   Concat_create a b (snd (Concat_create a b g)) = Concat_create a b g \<and>
   Star_create a (snd (Star_create a g)) = Star_create a g \<and>
   Or_create a b (snd (derive_text ord x str (snd (Or_create a b g)))) =
     (fst (Or_create a b g), snd (derive_text ord x str (snd (Or_create a b g)))) \<and>
   Concat_create a b (snd (derive_text ord x str (snd (Concat_create a b g)))) =
     (fst (Concat_create a b g), snd (derive_text ord x str (snd (Concat_create a b g)))) \<and>
   Star_create a (snd (derive_text ord x str (snd (Star_create a g)))) =
     (fst (Star_create a g), snd (derive_text ord x str (snd (Star_create a g))))"
proof -
  have "Or_create a b (snd (Or_create a b g)) = Or_create a b g"
    using Or_create_stable [OF caches_le_refl, of a b g] by simp
  moreover have "Concat_create a b (snd (Concat_create a b g)) = Concat_create a b g"
    using Concat_create_stable [OF caches_le_refl, of a b g] by simp
  moreover have "Star_create a (snd (Star_create a g)) = Star_create a g"
    using Star_create_stable [OF caches_le_refl, of a g] by simp
  ultimately show ?thesis
    by (simp add: Or_create_stable Concat_create_stable Star_create_stable
        derive_text_caches_le)
qed

text \<open>
  Claim C10: the end-to-end scenarios, run as \<^verbatim>\<open>main\<close> runs them, for either order of
  evaluating arguments. The pattern \<^verbatim>\<open>ab*\<close> matches \<^verbatim>\<open>a\<close> and \<^verbatim>\<open>abbb\<close> and not \<^verbatim>\<open>b\<close>;
  the pattern \<^verbatim>\<open>(a|b)+\<close> does not match the empty text and matches \<^verbatim>\<open>aabba\<close>.
\<close>

theorem scenarios:
  "main_try ord ''ab*'' ''a'' = Inr True \<and>
   main_try ord ''ab*'' ''abbb'' = Inr True \<and>
   main_try ord ''ab*'' ''b'' = Inr False \<and>
   main_try ord ''(a|b)+'' [] = Inr False \<and>
   main_try ord ''(a|b)+'' ''aabba'' = Inr True"
proof -
  have
    "main_try left_to_right ''ab*'' ''a'' = Inr True \<and>
     main_try left_to_right ''ab*'' ''abbb'' = Inr True \<and>
     main_try left_to_right ''ab*'' ''b'' = Inr False \<and>
     main_try left_to_right ''(a|b)+'' [] = Inr False \<and>
     main_try left_to_right ''(a|b)+'' ''aabba'' = Inr True"
    by code_simp
  moreover have
    "main_try right_to_left ''ab*'' ''a'' = Inr True \<and>
     main_try right_to_left ''ab*'' ''abbb'' = Inr True \<and>
     main_try right_to_left ''ab*'' ''b'' = Inr False \<and>
     main_try right_to_left ''(a|b)+'' [] = Inr False \<and>
     main_try right_to_left ''(a|b)+'' ''aabba'' = Inr True"
    by code_simp
  ultimately show ?thesis by (cases ord) simp_all
qed

end
